theory Spec2Isabelle
  imports Complex_Main "HOL-Library.AList"
begin

section \<open>Values and documents\<close>

text \<open>
  The values that travel through the endpoints of \<^verbatim>\<open>main.py\<close>: parsed JSON request
  bodies, the dictionaries produced by \<^verbatim>\<open>model_dump()\<close>, and the documents kept by the
  store. A native object identifier of the store is a value of its own kind, \<open>POid\<close>.
  Characters of Python strings are modelled by \<^typ>\<open>char\<close>.
\<close>

datatype datetime = Datetime int

datatype pyval =
    PNone
  | PBool bool
  | PNum real
  | PStr string
  | POid nat
  | PTime datetime
  | PDict "(string \<times> pyval) list"
  | PList "pyval list"

type_synonym document = "string \<rightharpoonup> pyval"

subsection \<open>Canonical string form of an identifier\<close>

definition hex_digit :: "nat \<Rightarrow> char" where
  "hex_digit d = ''0123456789abcdef'' ! d"

text \<open>Modelled from the spec: the canonical string form of a store-assigned identifier
  (\<^verbatim>\<open>database.py\<close> is not among the sources). The identifier is rendered in lowercase
  hexadecimal, most significant digit first.\<close>

fun oid_str :: "nat \<Rightarrow> string" where
  "oid_str n = (if n < 16 then [hex_digit n] else oid_str (n div 16) @ [hex_digit (n mod 16)])"

declare oid_str.simps [simp del]

text \<open>Python's \<^verbatim>\<open>str(v)\<close>. A string is its own text and an object identifier gives its
  canonical form; \<open>render\<close> stands for the text of every other kind of value.\<close>

definition py_str :: "(pyval \<Rightarrow> string) \<Rightarrow> pyval \<Rightarrow> string" where
  "py_str render v = (case v of PStr s \<Rightarrow> s | POid n \<Rightarrow> oid_str n | _ \<Rightarrow> render v)"

section \<open>The document store\<close>

text \<open>An attribute of the storage handle: missing, present, or raising when it is read.\<close>

datatype 'a attr = Absent | Present 'a | Raises string

text \<open>Modelled from the spec: the storage handle \<^verbatim>\<open>db\<close> of \<^verbatim>\<open>database.py\<close>, which is not
  among the sources. \<open>fault\<close> is \<open>Some e\<close> while the underlying connection fails with the
  description \<open>e\<close> (unreachable or failing storage); \<open>colls\<close> holds the named collections
  in creation order, each with its documents in insertion order; \<open>next_oid\<close> is the next
  identifier the store hands out.\<close>

record db_handle =
  name :: "string attr"
  fault :: "string option"
  colls :: "(string \<times> document list) list"
  next_oid :: nat

datatype issue = Missing | WrongType | NotInEnum | BelowMinimum | MalformedEmail

datatype failure =
    ValidationError "(string \<times> issue) list"
  | StoreUnavailable
  | StoreWriteError string
  | StoreReadError string
  | AttributeError

definition coll_docs :: "db_handle \<Rightarrow> string \<Rightarrow> document list" where
  "coll_docs d c = (case map_of (colls d) c of None \<Rightarrow> [] | Some ds \<Rightarrow> ds)"

text \<open>The documents of a collection of an optional handle (none when unconfigured).\<close>

definition stored :: "db_handle option \<Rightarrow> string \<Rightarrow> document list" where
  "stored db c = (case db of None \<Rightarrow> [] | Some d \<Rightarrow> coll_docs d c)"

text \<open>Modelled from the spec: \<^verbatim>\<open>create_document\<close> of \<^verbatim>\<open>database.py\<close> (section 4.2,
  createDocument). It fails with \<open>StoreUnavailable\<close> when no storage is configured and
  with \<open>StoreWriteError\<close> when the underlying write fails; otherwise it assigns a new
  identifier, appends the record to the collection and returns the identifier in its
  string form.\<close>

definition create_document ::
  "string \<Rightarrow> document \<Rightarrow> db_handle option \<Rightarrow> (failure + string) \<times> db_handle option" where
  "create_document c doc db =
     (case db of
        None \<Rightarrow> (Inl StoreUnavailable, None)
      | Some d \<Rightarrow>
          (case fault d of
             Some e \<Rightarrow> (Inl (StoreWriteError e), Some d)
           | None \<Rightarrow>
               let n = next_oid d;
                   stored_doc = doc(''_id'' \<mapsto> POid n)
               in (Inr (oid_str n),
                   Some (d\<lparr>colls := AList.update c (coll_docs d c @ [stored_doc]) (colls d),
                           next_oid := Suc n\<rparr>))))"

text \<open>The filters of section 4.2: the empty filter, a field equality, a logical OR.\<close>

datatype filt = All | Eq string pyval | Or "filt list"

fun matches :: "filt \<Rightarrow> document \<Rightarrow> bool" where
  "matches All d = True"
| "matches (Eq k v) d = (d k = Some v)"
| "matches (Or fs) d = list_ex (\<lambda>f. matches f d) fs"

text \<open>Modelled from the spec: \<^verbatim>\<open>get_documents\<close> of \<^verbatim>\<open>database.py\<close> (section 4.2,
  getDocuments). It fails with \<open>StoreUnavailable\<close> when no storage is configured and
  with \<open>StoreReadError\<close> when the underlying read fails; otherwise it returns the
  matching documents in insertion order, at most \<open>limit\<close> of them.\<close>

definition get_documents ::
  "string \<Rightarrow> filt \<Rightarrow> int \<Rightarrow> db_handle option \<Rightarrow> failure + document list" where
  "get_documents c f limit db =
     (case db of
        None \<Rightarrow> Inl StoreUnavailable
      | Some d \<Rightarrow>
          (case fault d of
             Some e \<Rightarrow> Inl (StoreReadError e)
           | None \<Rightarrow> Inr (take (nat limit) (filter (\<lambda>doc. matches f doc) (coll_docs d c)))))"

text \<open>Modelled from the spec: \<^verbatim>\<open>db.list_collection_names()\<close>, raising with the
  connection's failure description when the storage cannot be reached.\<close>

definition list_collection_names :: "db_handle \<Rightarrow> string + string list" where
  "list_collection_names d =
     (case fault d of Some e \<Rightarrow> Inl e | None \<Rightarrow> Inr (map fst (colls d)))"

section \<open>Entity schemas (\<^verbatim>\<open>schemas.py\<close>)\<close>

text \<open>
  The parsers of the validation library that the schemas rely on are parameters:
  \<open>parse_email\<close> is the syntax check of \<^verbatim>\<open>EmailStr\<close> (giving the normalised address),
  \<open>coerce_float\<close> the conversion to a float of an input that is not a number, and
  \<open>coerce_datetime\<close> the conversion to a datetime of an input that is not one.
\<close>

record codecs =
  parse_email :: "string \<Rightarrow> string option"
  coerce_float :: "pyval \<Rightarrow> real option"
  coerce_datetime :: "pyval \<Rightarrow> datetime option"

subsection \<open>Field types\<close>

definition str_type :: "pyval \<Rightarrow> issue + string" where
  "str_type v = (case v of PStr s \<Rightarrow> Inr s | _ \<Rightarrow> Inl WrongType)"

definition literal :: "string list \<Rightarrow> pyval \<Rightarrow> issue + string" where
  "literal allowed v =
     (case v of
        PStr s \<Rightarrow> if s \<in> set allowed then Inr s else Inl NotInEnum
      | _ \<Rightarrow> Inl NotInEnum)"

definition email_str :: "codecs \<Rightarrow> pyval \<Rightarrow> issue + string" where
  "email_str lib v =
     (case v of
        PStr s \<Rightarrow> (case parse_email lib s of None \<Rightarrow> Inl MalformedEmail | Some e \<Rightarrow> Inr e)
      | _ \<Rightarrow> Inl WrongType)"

definition dict_type :: "pyval \<Rightarrow> issue + (string \<times> pyval) list" where
  "dict_type v = (case v of PDict kvs \<Rightarrow> Inr kvs | _ \<Rightarrow> Inl WrongType)"

definition to_float :: "codecs \<Rightarrow> pyval \<Rightarrow> real option" where
  "to_float lib v = (case v of PNum r \<Rightarrow> Some r | _ \<Rightarrow> coerce_float lib v)"

text \<open>\<^verbatim>\<open>float\<close> with \<^verbatim>\<open>ge=lo\<close>.\<close>

definition float_ge :: "codecs \<Rightarrow> real \<Rightarrow> pyval \<Rightarrow> issue + real" where
  "float_ge lib lo v =
     (case to_float lib v of
        None \<Rightarrow> Inl WrongType
      | Some r \<Rightarrow> if lo \<le> r then Inr r else Inl BelowMinimum)"

definition to_datetime :: "codecs \<Rightarrow> pyval \<Rightarrow> datetime option" where
  "to_datetime lib v = (case v of PTime t \<Rightarrow> Some t | _ \<Rightarrow> coerce_datetime lib v)"

definition datetime_type :: "codecs \<Rightarrow> pyval \<Rightarrow> issue + datetime" where
  "datetime_type lib v = (case to_datetime lib v of None \<Rightarrow> Inl WrongType | Some t \<Rightarrow> Inr t)"

subsection \<open>Field presence\<close>

text \<open>\<^verbatim>\<open>Field(...)\<close>: the field must be given.\<close>

definition required :: "(pyval \<Rightarrow> issue + 'a) \<Rightarrow> document \<Rightarrow> string \<Rightarrow> issue + 'a" where
  "required chk raw k = (case raw k of None \<Rightarrow> Inl Missing | Some v \<Rightarrow> chk v)"

text \<open>\<^verbatim>\<open>Optional[T] = Field(dflt)\<close>: the default when the field is not given, \<open>None\<close>
  for a null.\<close>

definition optional ::
  "(pyval \<Rightarrow> issue + 'a) \<Rightarrow> 'a option \<Rightarrow> document \<Rightarrow> string \<Rightarrow> issue + 'a option" where
  "optional chk dflt raw k =
     (case raw k of
        None \<Rightarrow> Inr dflt
      | Some v \<Rightarrow> if v = PNone then Inr None else map_sum id Some (chk v))"

text \<open>\<^verbatim>\<open>T = dflt\<close>: the default when the field is not given.\<close>

definition defaulted :: "(pyval \<Rightarrow> issue + 'a) \<Rightarrow> 'a \<Rightarrow> document \<Rightarrow> string \<Rightarrow> issue + 'a" where
  "defaulted chk dflt raw k = (case raw k of None \<Rightarrow> Inr dflt | Some v \<Rightarrow> chk v)"

definition field_errors :: "string \<Rightarrow> issue + 'a \<Rightarrow> (string \<times> issue) list" where
  "field_errors k res = (case res of Inl i \<Rightarrow> [(k, i)] | Inr _ \<Rightarrow> [])"

definition opt_str :: "string option \<Rightarrow> pyval" where
  "opt_str s = (case s of None \<Rightarrow> PNone | Some x \<Rightarrow> PStr x)"

definition id_types :: "string list" where
  "id_types = [''aadhaar'', ''pan'', ''passport'', ''other'']"

definition sources :: "string list" where
  "sources = [''walkin'', ''ota'', ''corporate'', ''phone'', ''website'']"

definition booking_statuses :: "string list" where
  "booking_statuses = [''booked'', ''checked_in'', ''checked_out'', ''cancelled'']"

definition channels :: "string list" where
  "channels = [''sms'', ''whatsapp'']"

definition notification_statuses :: "string list" where
  "notification_statuses = [''queued'', ''sent'', ''failed'']"

subsection \<open>Guest\<close>

record guest =
  full_name :: string
  phone :: "string option"
  email :: "string option"
  address :: "string option"
  id_type :: "string option"
  id_number :: "string option"
  dob :: "string option"
  meta :: "(string \<times> pyval) list"

text \<open>Validation of a request body against \<^verbatim>\<open>Guest\<close>. The fields and their constraints are
  those that \<^verbatim>\<open>schemas.py\<close> declares; that every declared field is checked and the errors of all
  fields are reported together is the rule of the validation library, which the schemas of
  this section follow.\<close>

definition validate_guest :: "codecs \<Rightarrow> document \<Rightarrow> (string \<times> issue) list + guest" where
  "validate_guest lib raw =
     (let v_full_name = required str_type raw ''full_name'';
          v_phone = optional str_type None raw ''phone'';
          v_email = optional (email_str lib) None raw ''email'';
          v_address = optional str_type None raw ''address'';
          v_id_type = optional (literal id_types) None raw ''id_type'';
          v_id_number = optional str_type None raw ''id_number'';
          v_dob = optional str_type None raw ''dob'';
          v_meta = defaulted dict_type [] raw ''meta'';
          errs = field_errors ''full_name'' v_full_name @ field_errors ''phone'' v_phone
               @ field_errors ''email'' v_email @ field_errors ''address'' v_address
               @ field_errors ''id_type'' v_id_type @ field_errors ''id_number'' v_id_number
               @ field_errors ''dob'' v_dob @ field_errors ''meta'' v_meta
      in if errs = []
         then Inr \<lparr>full_name = projr v_full_name, phone = projr v_phone,
                   email = projr v_email, address = projr v_address,
                   id_type = projr v_id_type, id_number = projr v_id_number,
                   dob = projr v_dob, meta = projr v_meta\<rparr>
         else Inl errs)"

text \<open>\<^verbatim>\<open>guest.model_dump()\<close>.\<close>

definition guest_model_dump :: "guest \<Rightarrow> document" where
  "guest_model_dump g =
     [''full_name'' \<mapsto> PStr (guest.full_name g),
      ''phone'' \<mapsto> opt_str (guest.phone g),
      ''email'' \<mapsto> opt_str (guest.email g),
      ''address'' \<mapsto> opt_str (guest.address g),
      ''id_type'' \<mapsto> opt_str (guest.id_type g),
      ''id_number'' \<mapsto> opt_str (guest.id_number g),
      ''dob'' \<mapsto> opt_str (guest.dob g),
      ''meta'' \<mapsto> PDict (guest.meta g)]"

subsection \<open>Booking\<close>

record booking =
  guest_id :: string
  room_number :: string
  check_in :: datetime
  check_out :: datetime
  rate :: real
  source :: "string option"
  notes' :: "string option"
  status :: string

definition validate_booking :: "codecs \<Rightarrow> document \<Rightarrow> (string \<times> issue) list + booking" where
  "validate_booking lib raw =
     (let v_guest_id = required str_type raw ''guest_id'';
          v_room_number = required str_type raw ''room_number'';
          v_check_in = required (datetime_type lib) raw ''check_in'';
          v_check_out = required (datetime_type lib) raw ''check_out'';
          v_rate = required (float_ge lib 0) raw ''rate'';
          v_source = optional (literal sources) (Some ''walkin'') raw ''source'';
          v_notes = optional str_type None raw ''notes'';
          v_status = defaulted (literal booking_statuses) ''booked'' raw ''status'';
          errs = field_errors ''guest_id'' v_guest_id @ field_errors ''room_number'' v_room_number
               @ field_errors ''check_in'' v_check_in @ field_errors ''check_out'' v_check_out
               @ field_errors ''rate'' v_rate @ field_errors ''source'' v_source
               @ field_errors ''notes'' v_notes @ field_errors ''status'' v_status
      in if errs = []
         then Inr \<lparr>guest_id = projr v_guest_id, room_number = projr v_room_number,
                   check_in = projr v_check_in, check_out = projr v_check_out,
                   rate = projr v_rate, source = projr v_source,
                   notes' = projr v_notes, status = projr v_status\<rparr>
         else Inl errs)"

definition booking_model_dump :: "booking \<Rightarrow> document" where
  "booking_model_dump b =
     [''guest_id'' \<mapsto> PStr (booking.guest_id b),
      ''room_number'' \<mapsto> PStr (booking.room_number b),
      ''check_in'' \<mapsto> PTime (booking.check_in b),
      ''check_out'' \<mapsto> PTime (booking.check_out b),
      ''rate'' \<mapsto> PNum (booking.rate b),
      ''source'' \<mapsto> opt_str (booking.source b),
      ''notes'' \<mapsto> opt_str (booking.notes' b),
      ''status'' \<mapsto> PStr (booking.status b)]"

subsection \<open>Notification\<close>

record notification =
  channel :: string
  to :: string
  message :: string
  status :: string
  provider :: "string option"
  error :: "string option"

definition validate_notification :: "document \<Rightarrow> (string \<times> issue) list + notification" where
  "validate_notification raw =
     (let v_channel = required (literal channels) raw ''channel'';
          v_to = required str_type raw ''to'';
          v_message = required str_type raw ''message'';
          v_status = defaulted (literal notification_statuses) ''queued'' raw ''status'';
          v_provider = optional str_type None raw ''provider'';
          v_error = optional str_type None raw ''error'';
          errs = field_errors ''channel'' v_channel @ field_errors ''to'' v_to
               @ field_errors ''message'' v_message @ field_errors ''status'' v_status
               @ field_errors ''provider'' v_provider @ field_errors ''error'' v_error
      in if errs = []
         then Inr \<lparr>channel = projr v_channel, to = projr v_to, message = projr v_message,
                   status = projr v_status, provider = projr v_provider,
                   error = projr v_error\<rparr>
         else Inl errs)"

definition notification_model_dump :: "notification \<Rightarrow> document" where
  "notification_model_dump n =
     [''channel'' \<mapsto> PStr (notification.channel n),
      ''to'' \<mapsto> PStr (notification.to n),
      ''message'' \<mapsto> PStr (notification.message n),
      ''status'' \<mapsto> PStr (notification.status n),
      ''provider'' \<mapsto> opt_str (notification.provider n),
      ''error'' \<mapsto> opt_str (notification.error n)]"

section \<open>The endpoints (\<^verbatim>\<open>main.py\<close>)\<close>

subsection \<open>Health and diagnostics\<close>

text \<open>The status marks of the report, as their UTF-8 bytes: the check mark, the cross
  mark and the warning sign.\<close>

definition check_mark :: string where
  "check_mark = [CHR 0xE2, CHR 0x9C, CHR 0x85]"

definition cross_mark :: string where
  "cross_mark = [CHR 0xE2, CHR 0x9D, CHR 0x8C]"

definition warning_sign :: string where
  "warning_sign = [CHR 0xE2, CHR 0x9A, CHR 0xA0, CHR 0xEF, CHR 0xB8, CHR 0x8F]"

record response =
  backend :: string
  database :: string
  database_url :: "string option"
  database_name :: "string option"
  connection_status :: string
  collections :: "string list"

text \<open>The inner \<^verbatim>\<open>try\<close> of \<^verbatim>\<open>test_database\<close>: the collection names are listed, and a
  failure is written into the report.\<close>

definition probe_collections :: "db_handle \<Rightarrow> response \<Rightarrow> response" where
  "probe_collections d r =
     (case list_collection_names d of
        Inr cs \<Rightarrow> r\<lparr>collections := take 10 cs,
                     database := check_mark @ '' Connected & Working''\<rparr>
      | Inl e \<Rightarrow> r\<lparr>database := warning_sign @ ''  Connected but Error: '' @ take 50 e\<rparr>)"

text \<open>The body of the outer \<^verbatim>\<open>try\<close>: the exception that leaves it, if any, and the report
  as the statements run so far have changed it.\<close>

definition probe :: "db_handle option \<Rightarrow> response \<Rightarrow> string option \<times> response" where
  "probe db r =
     (case db of
        Some d \<Rightarrow>
          (let r1 = r\<lparr>database := check_mark @ '' Available'',
                      database_url := Some (check_mark @ '' Configured'')\<rparr>
           in case name d of
                Raises e \<Rightarrow> (Some e, r1)
              | Present n \<Rightarrow>
                  (None, probe_collections d
                           (r1\<lparr>database_name := Some n, connection_status := ''Connected''\<rparr>))
              | Absent \<Rightarrow>
                  (None, probe_collections d
                           (r1\<lparr>database_name := Some (check_mark @ '' Connected''),
                               connection_status := ''Connected''\<rparr>)))
      | None \<Rightarrow> (None, r\<lparr>database := warning_sign @ ''  Available but not initialized''\<rparr>))"

text \<open>Python's truth value of \<^verbatim>\<open>os.getenv(k)\<close>.\<close>

definition env_set :: "(string \<rightharpoonup> string) \<Rightarrow> string \<Rightarrow> bool" where
  "env_set env k = (case env k of None \<Rightarrow> False | Some v \<Rightarrow> v \<noteq> [])"

text \<open>\<^verbatim>\<open>test_database\<close>. The result is \<open>Inr\<close> the report, or \<open>Inl\<close> an exception that
  left the function.\<close>

definition test_database :: "db_handle option \<Rightarrow> (string \<rightharpoonup> string) \<Rightarrow> string + response" where
  "test_database db env =
     (let response = \<lparr>backend = check_mark @ '' Running'',
                       database = cross_mark @ '' Not Available'',
                       database_url = None,
                       database_name = None,
                       connection_status = ''Not Connected'',
                       collections = []\<rparr>;
          response = (case probe db response of
                        (None, r) \<Rightarrow> r
                      | (Some e, r) \<Rightarrow> r\<lparr>database := cross_mark @ '' Error: '' @ take 50 e\<rparr>);
          response = response\<lparr>database_url :=
                        Some (if env_set env ''DATABASE_URL'' then check_mark @ '' Set''
                              else cross_mark @ '' Not Set'')\<rparr>;
          response = response\<lparr>database_name :=
                        Some (if env_set env ''DATABASE_NAME'' then check_mark @ '' Set''
                              else cross_mark @ '' Not Set'')\<rparr>
      in Inr response)"

subsection \<open>Document extraction (stub)\<close>

record upload_file =
  filename :: "string option"
  content_type :: "string option"
  content :: string

record ocr_result =
  id_type :: "string option"
  id_number :: "string option"
  full_name :: "string option"
  dob :: "string option"
  raw_text :: "string option"

text \<open>\<^verbatim>\<open>str.lower()\<close> on the letters A to Z; every other character is kept.\<close>

definition lower_char :: "char \<Rightarrow> char" where
  "lower_char c =
     (case map_of (zip ''ABCDEFGHIJKLMNOPQRSTUVWXYZ'' ''abcdefghijklmnopqrstuvwxyz'') c of
        None \<Rightarrow> c
      | Some l \<Rightarrow> l)"

definition lower :: "string \<Rightarrow> string" where
  "lower s = map lower_char s"

text \<open>\<^verbatim>\<open>str.endswith\<close> with a tuple of suffixes.\<close>

definition endswith :: "string \<Rightarrow> string list \<Rightarrow> bool" where
  "endswith s sufs =
     list_ex (\<lambda>suf. length suf \<le> length s \<and> drop (length s - length suf) s = suf) sufs"

text \<open>\<^verbatim>\<open>ocr_extract\<close>. \<open>now\<close> is the text of \<^verbatim>\<open>datetime.utcnow().isoformat()\<close>. Reading
  \<^verbatim>\<open>file.filename.lower()\<close> of a file without a name raises \<open>AttributeError\<close>.\<close>

definition ocr_extract ::
  "upload_file \<Rightarrow> string \<Rightarrow> db_handle option \<Rightarrow> (failure + ocr_result) \<times> db_handle option" where
  "ocr_extract file now db =
     (let meta = [''filename'' \<mapsto> opt_str (filename file),
                  ''content_type'' \<mapsto> opt_str (content_type file),
                  ''received_at'' \<mapsto> PStr now]
      in case create_document ''iddocument''
                ([''file_name'' \<mapsto> opt_str (filename file), ''extracted'' \<mapsto> PDict [],
                  ''raw_text'' \<mapsto> PNone] ++ meta) db of
           (Inl e, db') \<Rightarrow> (Inl e, db')
         | (Inr doc_id, db') \<Rightarrow>
             (case filename file of
                None \<Rightarrow> (Inl AttributeError, db')
              | Some fname \<Rightarrow>
                  (Inr \<lparr>id_type = Some (if endswith (lower fname) [''.jpg'', ''.png'', ''.jpeg'']
                                         then ''aadhaar'' else ''pan''),
                         id_number = Some ''XXXX-XXXX-1234'',
                         full_name = Some ''Sample Guest'',
                         dob = Some ''1990-01-01'',
                         raw_text = Some ''Mocked OCR content''\<rparr>, db')))"

subsection \<open>Guests and bookings\<close>

text \<open>\<^verbatim>\<open>create_guest\<close>, called with a validated \<^verbatim>\<open>Guest\<close>.\<close>

definition create_guest ::
  "guest \<Rightarrow> db_handle option \<Rightarrow> (failure + document) \<times> db_handle option" where
  "create_guest g db =
     (case create_document ''guest'' (guest_model_dump g) db of
        (Inl e, db') \<Rightarrow> (Inl e, db')
      | (Inr new_id, db') \<Rightarrow> (Inr ([''_id'' \<mapsto> PStr new_id] ++ guest_model_dump g), db'))"

text \<open>The route \<^verbatim>\<open>POST /api/guests\<close>: the request body is validated against \<^verbatim>\<open>Guest\<close>
  before \<^verbatim>\<open>create_guest\<close> runs.\<close>

definition post_guest ::
  "codecs \<Rightarrow> document \<Rightarrow> db_handle option \<Rightarrow> (failure + document) \<times> db_handle option" where
  "post_guest lib raw db =
     (case validate_guest lib raw of
        Inl errs \<Rightarrow> (Inl (ValidationError errs), db)
      | Inr g \<Rightarrow> create_guest g db)"

text \<open>The loop over the documents of both list endpoints: an \<^verbatim>\<open>_id\<close>, when present,
  is replaced by its string.\<close>

definition stringify_id :: "(pyval \<Rightarrow> string) \<Rightarrow> document \<Rightarrow> document" where
  "stringify_id render d =
     (case d ''_id'' of None \<Rightarrow> d | Some v \<Rightarrow> d(''_id'' \<mapsto> PStr (py_str render v)))"

definition list_guests ::
  "(pyval \<Rightarrow> string) \<Rightarrow> string option \<Rightarrow> int \<Rightarrow> db_handle option \<Rightarrow> failure + document list" where
  "list_guests render q limit db =
     (let filt = (case q of
                    None \<Rightarrow> All
                  | Some s \<Rightarrow> if s \<noteq> [] then Or [Eq ''phone'' (PStr s), Eq ''id_number'' (PStr s)]
                              else All)
      in case get_documents ''guest'' filt limit db of
           Inl e \<Rightarrow> Inl e
         | Inr docs \<Rightarrow> Inr (map (stringify_id render) docs))"

definition create_booking ::
  "booking \<Rightarrow> db_handle option \<Rightarrow> (failure + document) \<times> db_handle option" where
  "create_booking b db =
     (case create_document ''booking'' (booking_model_dump b) db of
        (Inl e, db') \<Rightarrow> (Inl e, db')
      | (Inr new_id, db') \<Rightarrow> (Inr ([''_id'' \<mapsto> PStr new_id] ++ booking_model_dump b), db'))"

text \<open>The route \<^verbatim>\<open>POST /api/bookings\<close>: the request body is validated against
  \<^verbatim>\<open>Booking\<close> before \<^verbatim>\<open>create_booking\<close> runs.\<close>

definition post_booking ::
  "codecs \<Rightarrow> document \<Rightarrow> db_handle option \<Rightarrow> (failure + document) \<times> db_handle option" where
  "post_booking lib raw db =
     (case validate_booking lib raw of
        Inl errs \<Rightarrow> (Inl (ValidationError errs), db)
      | Inr b \<Rightarrow> create_booking b db)"

definition list_bookings ::
  "(pyval \<Rightarrow> string) \<Rightarrow> int \<Rightarrow> db_handle option \<Rightarrow> failure + document list" where
  "list_bookings render limit db =
     (case get_documents ''booking'' All limit db of
        Inl e \<Rightarrow> Inl e
      | Inr docs \<Rightarrow> Inr (map (stringify_id render) docs))"

subsection \<open>Notifications (stub sender)\<close>

record send_notification_payload =
  channel :: string
  to :: string
  message :: string

text \<open>\<^verbatim>\<open>send_notification\<close>. Building the \<^verbatim>\<open>Notification\<close> validates its fields; the
  record is stored, and the answer carries the status \<^verbatim>\<open>"sent"\<close>.\<close>

definition send_notification ::
  "send_notification_payload \<Rightarrow> db_handle option \<Rightarrow> (failure + document) \<times> db_handle option" where
  "send_notification payload db =
     (case validate_notification
             [''channel'' \<mapsto> PStr (send_notification_payload.channel payload),
              ''to'' \<mapsto> PStr (send_notification_payload.to payload),
              ''message'' \<mapsto> PStr (send_notification_payload.message payload)] of
        Inl errs \<Rightarrow> (Inl (ValidationError errs), db)
      | Inr notif \<Rightarrow>
          (case create_document ''notification'' (notification_model_dump notif) db of
             (Inl e, db') \<Rightarrow> (Inl e, db')
           | (Inr notif_id, db') \<Rightarrow>
               (Inr [''status'' \<mapsto> PStr ''sent'', ''id'' \<mapsto> PStr notif_id], db')))"



section \<open>The properties in the spec's words, and inputs to run the endpoints on\<close>

text \<open>The guests that section 6 asks of \<^verbatim>\<open>listGuests\<close>: all of them when the query string
  is absent or empty, otherwise those whose \<^verbatim>\<open>phone\<close> or \<^verbatim>\<open>id_number\<close> equals it.\<close>

definition matches_query :: "string option \<Rightarrow> document \<Rightarrow> bool" where
  "matches_query q g =
     (case q of
        None \<Rightarrow> True
      | Some s \<Rightarrow> s = [] \<or> g ''phone'' = Some (PStr s) \<or> g ''id_number'' = Some (PStr s))"

text \<open>A store that is configured, reachable and empty.\<close>

definition demo_db :: db_handle where
  "demo_db = \<lparr>name = Present ''hotelops'', fault = None, colls = [], next_oid = 0\<rparr>"

text \<open>A store with three guests.\<close>

definition guests_db :: db_handle where
  "guests_db =
     \<lparr>name = Present ''hotelops'', fault = None,
      colls = [(''guest'',
                [[''full_name'' \<mapsto> PStr ''Asha Rao'', ''phone'' \<mapsto> PStr ''555'',
                  ''_id'' \<mapsto> POid 0],
                 [''full_name'' \<mapsto> PStr ''Ravi Iyer'', ''phone'' \<mapsto> PStr ''777'',
                  ''_id'' \<mapsto> POid 1],
                 [''full_name'' \<mapsto> PStr ''Asha R'', ''phone'' \<mapsto> PNone,
                  ''id_number'' \<mapsto> PStr ''555'', ''_id'' \<mapsto> POid 2]])],
      next_oid = 3\<rparr>"

text \<open>Parsers to run the validation with: an address is accepted when it has an \<open>@\<close>,
  nothing but a number is a float, and a number is a datetime as seconds since the epoch.\<close>

definition demo_codecs :: codecs where
  "demo_codecs =
     \<lparr>parse_email = (\<lambda>s. if CHR ''@'' \<in> set s then Some s else None),
      coerce_float = (\<lambda>v. None),
      coerce_datetime = (\<lambda>v. case v of PNum r \<Rightarrow> Some (Datetime \<lfloor>r\<rfloor>) | _ \<Rightarrow> None)\<rparr>"

















text \<open>
  Stores whose handle raises when its name is read, whose connection fails, and with
  twelve collections.
\<close>

definition failing_db :: db_handle where
  "failing_db = \<lparr>name = Present ''hotelops'', fault = Some ''connection refused'',
                  colls = [], next_oid = 0\<rparr>"

definition raising_db :: db_handle where
  "raising_db = \<lparr>name = Raises ''handle closed'', fault = None, colls = [], next_oid = 0\<rparr>"

definition crowded_db :: db_handle where
  "crowded_db = \<lparr>name = Absent, fault = None,
                  colls = map (\<lambda>c. (c, [])) [''a'', ''b'', ''c'', ''d'', ''e'', ''f'', ''g'', ''h'',
                                                ''i'', ''j'', ''k'', ''l''],
                  next_oid = 0\<rparr>"

text \<open>
  The file name endings that the stub takes for an image.
\<close>

definition image_exts :: "string list" where
  "image_exts = [''.jpg'', ''.png'', ''.jpeg'']"

text \<open>
  Uploaded files: one without a name, two pictures and a PDF.
\<close>

definition nameless_file :: upload_file where
  "nameless_file = \<lparr>filename = None, content_type = Some ''image/png'', content = ''89504e47''\<rparr>"

definition jpg_file :: upload_file where
  "jpg_file = \<lparr>filename = Some ''card.JPG'', content_type = Some ''image/jpeg'', content = ''ffd8''\<rparr>"

definition png_file :: upload_file where
  "png_file = \<lparr>filename = Some ''scan.png'', content_type = Some ''image/png'',
                content = ''89504e47''\<rparr>"

definition pdf_file :: upload_file where
  "pdf_file = \<lparr>filename = Some ''card.pdf'', content_type = Some ''application/pdf'',
                content = ''25504446''\<rparr>"

text \<open>
  The identifiers in use are below the next one the store hands out.
\<close>

definition id_below :: "nat \<Rightarrow> document \<Rightarrow> bool" where
  "id_below k doc = (case doc ''_id'' of Some (POid n) \<Rightarrow> n < k | _ \<Rightarrow> True)"

definition ids_below :: "db_handle \<Rightarrow> bool" where
  "ids_below d = (\<forall>(c, docs) \<in> set (colls d). \<forall>doc \<in> set docs. id_below (next_oid d) doc)"

text \<open>
  The guest and the booking of the end-to-end scenario of section 8: the guest as a request
  body and validated, the booking validated, and a store that holds a booking.
\<close>

definition asha :: document where
  "asha = [''full_name'' \<mapsto> PStr ''Asha Rao'', ''phone'' \<mapsto> PStr ''+919999999999'']"

definition asha_guest :: guest where
  "asha_guest = \<lparr>guest.full_name = ''Asha Rao'', guest.phone = Some ''+919999999999'',
                  guest.email = None, guest.address = None, guest.id_type = None,
                  guest.id_number = None, guest.dob = None, guest.meta = []\<rparr>"

definition stay :: booking where
  "stay = \<lparr>booking.guest_id = ''0'', booking.room_number = ''204'',
            booking.check_in = Datetime 1704117600, booking.check_out = Datetime 1704193200,
            booking.rate = 1200, booking.source = Some ''walkin'', booking.notes' = None,
            booking.status = ''booked''\<rparr>"

definition bookings_db :: db_handle where
  "bookings_db =
     \<lparr>name = Present ''hotelops'', fault = None,
      colls = [(''booking'',
                [[''guest_id'' \<mapsto> PStr ''0'', ''room_number'' \<mapsto> PStr ''204'',
                  ''status'' \<mapsto> PStr ''booked'', ''_id'' \<mapsto> POid 0]])],
      next_oid = 1\<rparr>"

section \<open>Facts about the store\<close>

lemma hex_digit_inj: "a < 16 \<Longrightarrow> b < 16 \<Longrightarrow> hex_digit a = hex_digit b \<Longrightarrow> a = b"
  unfolding hex_digit_def
  by (subst (asm) nth_eq_iff_index_eq) simp_all

lemma oid_str_not_Nil: "oid_str n \<noteq> []"
  by (subst oid_str.simps) simp

lemma oid_str_last: "last (oid_str n) = hex_digit (n mod 16)"
  by (subst oid_str.simps) simp

lemma oid_str_butlast: "butlast (oid_str n) = (if n < 16 then [] else oid_str (n div 16))"
  by (subst oid_str.simps) simp

text \<open>Two identifiers with the same string form are the same identifier.\<close>

lemma oid_str_inj: "oid_str m = oid_str n \<Longrightarrow> m = n"
proof (induction m arbitrary: n rule: less_induct)
  case (less m)
  from less.prems have "hex_digit (m mod 16) = hex_digit (n mod 16)"
    using oid_str_last by metis
  then have md: "m mod 16 = n mod 16"
    by (intro hex_digit_inj) simp_all
  from less.prems have b: "butlast (oid_str m) = butlast (oid_str n)" by simp
  show ?case
  proof (cases "m < 16")
    case True
    with b have "n < 16" using oid_str_not_Nil [of "n div 16"]
      by (auto simp: oid_str_butlast split: if_splits)
    with True md show ?thesis by simp
  next
    case False
    with b have n: "\<not> n < 16" using oid_str_not_Nil [of "m div 16"]
      by (auto simp: oid_str_butlast split: if_splits)
    with False b have "oid_str (m div 16) = oid_str (n div 16)"
      by (simp add: oid_str_butlast)
    moreover from False have "m div 16 < m" by simp
    ultimately have "m div 16 = n div 16" using less.IH by blast
    with md show ?thesis by (metis div_mult_mod_eq)
  qed
qed

lemma create_document_ok:
  assumes "fault d = None"
  shows "create_document c doc (Some d) =
           (Inr (oid_str (next_oid d)),
            Some (d\<lparr>colls := AList.update c (coll_docs d c @ [doc(''_id'' \<mapsto> POid (next_oid d))])
                                (colls d),
                    next_oid := Suc (next_oid d)\<rparr>))"
  using assms by (simp add: create_document_def Let_def)

lemma coll_docs_update:
  "coll_docs (d\<lparr>colls := AList.update c ds (colls d), next_oid := k\<rparr>) c' =
     (if c' = c then ds else coll_docs d c')"
  by (simp add: coll_docs_def update_conv')

lemma stored_create_document:
  assumes "fault d = None"
  shows "stored (snd (create_document c doc (Some d))) c' =
           (if c' = c then stored (Some d) c @ [doc(''_id'' \<mapsto> POid (next_oid d))]
            else stored (Some d) c')"
  using assms by (simp add: create_document_ok stored_def coll_docs_update)

lemma demo_db_facts:
  "fault demo_db = None" "next_oid demo_db = 0" "stored (Some demo_db) c = []"
  "coll_docs demo_db c = []"
  by (simp_all add: demo_db_def stored_def coll_docs_def)

lemma guests_db_fault: "fault guests_db = None"
  by (simp add: guests_db_def)

lemma ids_below_demo_db: "ids_below demo_db"
  by (simp add: ids_below_def demo_db_def)

section \<open>Notifications\<close>

lemma validate_notification_payload:
  "c \<in> set channels \<Longrightarrow>
   validate_notification [''channel'' \<mapsto> PStr c, ''to'' \<mapsto> PStr t, ''message'' \<mapsto> PStr m] =
     Inr \<lparr>notification.channel = c, notification.to = t, notification.message = m,
           notification.status = ''queued'', notification.provider = None,
           notification.error = None\<rparr>"
  by (simp add: validate_notification_def required_def defaulted_def optional_def literal_def
      str_type_def field_errors_def Let_def)

text \<open>
  C1, as the code has it. For every send request with a channel of the schema, on a store
  that accepts the write, \<^verbatim>\<open>send_notification\<close> appends one Notification record whose
  status is \<^verbatim>\<open>"queued"\<close>, with the request's channel, destination and message, and answers
  with the record's identifier and the status \<^verbatim>\<open>"sent"\<close>: the stub simulates an
  immediate success.
\<close>

theorem send_notification_stores_queued_replies_sent:
  assumes "send_notification_payload.channel p \<in> set channels" and "fault d = None"
  shows "\<exists>db' rec.
           send_notification p (Some d) =
             (Inr [''status'' \<mapsto> PStr ''sent'', ''id'' \<mapsto> PStr (oid_str (next_oid d))], db') \<and>
           stored db' ''notification'' = stored (Some d) ''notification'' @ [rec] \<and>
           rec ''status'' = Some (PStr ''queued'') \<and>
           rec ''_id'' = Some (POid (next_oid d)) \<and>
           rec ''channel'' = Some (PStr (send_notification_payload.channel p)) \<and>
           rec ''to'' = Some (PStr (send_notification_payload.to p)) \<and>
           rec ''message'' = Some (PStr (send_notification_payload.message p))"
  using assms
  by (simp add: send_notification_def validate_notification_payload create_document_ok
      stored_def coll_docs_update notification_model_dump_def)

theorem send_notification_stores_queued_replies_sent_witness:
  "\<exists>db'. send_notification \<lparr>channel = ''sms'', to = ''+919999999999'', message = ''Welcome''\<rparr>
            (Some demo_db) = (Inr [''status'' \<mapsto> PStr ''sent'', ''id'' \<mapsto> PStr ''0''], db')"
  using send_notification_stores_queued_replies_sent
    [of "\<lparr>channel = ''sms'', to = ''+919999999999'', message = ''Welcome''\<rparr>" demo_db]
  by (auto simp add: channels_def demo_db_def oid_str.simps hex_digit_def)

text \<open>
  C1, as the spec states it, fails: the answer to a send request asserts the status
  \<^verbatim>\<open>"sent"\<close> although no provider is wired.
\<close>

theorem send_notification_claims_sent:
  "fst (send_notification \<lparr>channel = ''sms'', to = ''+919999999999'', message = ''Welcome''\<rparr>
          (Some demo_db)) = Inr [''status'' \<mapsto> PStr ''sent'', ''id'' \<mapsto> PStr ''0'']"
  by (simp add: send_notification_def validate_notification_payload channels_def create_document_ok
      demo_db_def oid_str.simps hex_digit_def)

section \<open>Listing guests\<close>

lemma get_documents_ok:
  "fault d = None \<Longrightarrow>
   get_documents c f limit (Some d) = Inr (take (nat limit) (filter (matches f) (coll_docs d c)))"
  by (simp add: get_documents_def)

text \<open>
  C2, as the code has it. On a store that answers the read, and for a limit that is not
  negative, \<^verbatim>\<open>list_guests\<close> returns, in the store's order and with identifiers as strings,
  the first \<open>limit\<close> of the guests whose \<^verbatim>\<open>phone\<close> or \<^verbatim>\<open>id_number\<close> equals the query
  string, and no others: all of them when at most \<open>limit\<close> match. When the query string is
  absent or empty no filter is applied, and the first \<open>limit\<close> guests are returned.
\<close>

theorem list_guests_filtered_up_to_limit:
  assumes "fault d = None" and "0 \<le> limit"
  shows "list_guests render q limit (Some d) =
           Inr (map (stringify_id render)
                  (take (nat limit) (filter (matches_query q) (coll_docs d ''guest''))))"
proof -
  have "matches (case q of None \<Rightarrow> All
                 | Some s \<Rightarrow> if s \<noteq> [] then Or [Eq ''phone'' (PStr s), Eq ''id_number'' (PStr s)]
                             else All) = matches_query q"
    by (rule ext) (simp add: matches_query_def split: option.split)
  with assms(1) show ?thesis
    by (simp add: list_guests_def get_documents_ok)
qed

theorem list_guests_filtered_up_to_limit_witness:
  "list_guests (\<lambda>v. []) (Some ''555'') 25 (Some guests_db) =
     Inr [[''full_name'' \<mapsto> PStr ''Asha Rao'', ''phone'' \<mapsto> PStr ''555'', ''_id'' \<mapsto> PStr ''0''],
          [''full_name'' \<mapsto> PStr ''Asha R'', ''phone'' \<mapsto> PNone,
           ''id_number'' \<mapsto> PStr ''555'', ''_id'' \<mapsto> PStr ''2'']]"
  using list_guests_filtered_up_to_limit [of guests_db 25 "\<lambda>v. []" "Some ''555''"]
  by (simp add: guests_db_def coll_docs_def matches_query_def stringify_id_def py_str_def
      oid_str.simps hex_digit_def)

text \<open>
  C2, as the spec states it, fails: with the limit 1 the third guest, whose
  \<^verbatim>\<open>id_number\<close> equals the query string, is not returned.
\<close>

theorem list_guests_limit_drops_match:
  "list_guests (\<lambda>v. []) (Some ''555'') 1 (Some guests_db) =
     Inr [[''full_name'' \<mapsto> PStr ''Asha Rao'', ''phone'' \<mapsto> PStr ''555'', ''_id'' \<mapsto> PStr ''0'']] \<and>
   (stored (Some guests_db) ''guest'' ! 2) ''id_number'' = Some (PStr ''555'')"
  by (simp add: list_guests_def get_documents_def guests_db_def coll_docs_def stored_def
      stringify_id_def py_str_def oid_str.simps hex_digit_def)

section \<open>Rejecting a negative rate\<close>

text \<open>
  C3. A Booking input whose \<^verbatim>\<open>rate\<close> is a number below zero (or is converted to one) is
  rejected by \<^verbatim>\<open>POST /api/bookings\<close> with a validation error that cites the \<^verbatim>\<open>rate\<close>
  field; the store is left as it was, so listing the bookings gives what it gave before.
\<close>

theorem negative_rate_rejected:
  assumes "raw ''rate'' = Some v" and "to_float lib v = Some r" and "r < 0"
  shows "\<exists>errs. post_booking lib raw db = (Inl (ValidationError errs), db) \<and>
                (''rate'', BelowMinimum) \<in> set errs \<and>
                list_bookings render limit (snd (post_booking lib raw db)) =
                  list_bookings render limit db"
proof -
  from assms have "required (float_ge lib 0) raw ''rate'' = Inl BelowMinimum"
    by (simp add: required_def float_ge_def)
  then show ?thesis
    by (simp add: post_booking_def validate_booking_def Let_def field_errors_def)
qed

theorem negative_rate_rejected_witness:
  "post_booking demo_codecs
     [''guest_id'' \<mapsto> PStr ''0'', ''room_number'' \<mapsto> PStr ''204'',
      ''check_in'' \<mapsto> PNum 1704117600, ''check_out'' \<mapsto> PNum 1704193200,
      ''rate'' \<mapsto> PNum (- 1200)] (Some demo_db) =
     (Inl (ValidationError [(''rate'', BelowMinimum)]), Some demo_db)"
  using negative_rate_rejected [of "[''guest_id'' \<mapsto> PStr ''0'', ''room_number'' \<mapsto> PStr ''204'',
      ''check_in'' \<mapsto> PNum 1704117600, ''check_out'' \<mapsto> PNum 1704193200,
      ''rate'' \<mapsto> PNum (- 1200)]" "PNum (- 1200)" demo_codecs "- 1200" "Some demo_db"]
  by (simp add: to_float_def post_booking_def validate_booking_def Let_def field_errors_def
      required_def optional_def defaulted_def str_type_def datetime_type_def to_datetime_def
      float_ge_def demo_codecs_def literal_def)

section \<open>Validation errors\<close>






































section \<open>Health and diagnostics\<close>

lemma probe_collections_bound:
  "length (collections r) \<le> 10 \<Longrightarrow> length (collections (probe_collections d r)) \<le> 10"
  by (simp add: probe_collections_def split: sum.split)

lemma probe_bound:
  "length (collections r) \<le> 10 \<Longrightarrow> length (collections (snd (probe db r))) \<le> 10"
  by (cases db) (auto simp: probe_def Let_def probe_collections_bound split: attr.split)

text \<open>
  C4. For every state of the storage handle (not configured, raising when it is read,
  unreachable, or working) \<^verbatim>\<open>test_database\<close> returns a report and no exception leaves it: a
  failure is described in the report's \<^verbatim>\<open>database\<close> field, with at most 50 characters of
  its text, and the report names at most 10 collections.
\<close>

theorem test_database_always_answers:
  "\<exists>r. test_database db env = Inr r \<and> length (collections r) \<le> 10 \<and>
        (db = None \<longrightarrow> database r = warning_sign @ ''  Available but not initialized'') \<and>
        (\<forall>d e. db = Some d \<and> name d = Raises e \<longrightarrow>
           database r = cross_mark @ '' Error: '' @ take 50 e) \<and>
        (\<forall>d e. db = Some d \<and> (\<forall>x. name d \<noteq> Raises x) \<and> fault d = Some e \<longrightarrow>
           database r = warning_sign @ ''  Connected but Error: '' @ take 50 e) \<and>
        (\<forall>d. db = Some d \<and> (\<forall>x. name d \<noteq> Raises x) \<and> fault d = None \<longrightarrow>
           database r = check_mark @ '' Connected & Working'' \<and>
           collections r = take 10 (map fst (colls d)))"
proof -
  define r0 where "r0 = \<lparr>backend = check_mark @ '' Running'',
                       database = cross_mark @ '' Not Available'',
                       database_url = None,
                       database_name = None,
                       connection_status = ''Not Connected'',
                       collections = []\<rparr>"
  have b: "length (collections (snd (probe db r0))) \<le> 10"
    by (rule probe_bound) (simp add: r0_def)
  obtain ex r1 where p: "probe db r0 = (ex, r1)" by (cases "probe db r0")
  with b have b1: "length (collections r1) \<le> 10" by simp
  have none: "db = None \<Longrightarrow> ex = None \<and> database r1 = warning_sign @ ''  Available but not initialized''"
    using p by (auto simp: probe_def)
  have raises: "db = Some d \<Longrightarrow> name d = Raises e \<Longrightarrow> ex = Some e" for d e
    using p by (auto simp: probe_def Let_def)
  have failing: "db = Some d \<Longrightarrow> (\<forall>x. name d \<noteq> Raises x) \<Longrightarrow> fault d = Some e \<Longrightarrow>
      ex = None \<and> database r1 = warning_sign @ ''  Connected but Error: '' @ take 50 e" for d e
    using p by (cases "name d")
      (auto simp: probe_def Let_def probe_collections_def list_collection_names_def)
  have working: "db = Some d \<Longrightarrow> (\<forall>x. name d \<noteq> Raises x) \<Longrightarrow> fault d = None \<Longrightarrow>
      ex = None \<and> database r1 = check_mark @ '' Connected & Working'' \<and>
      collections r1 = take 10 (map fst (colls d))" for d
    using p by (cases "name d")
      (auto simp: probe_def Let_def probe_collections_def list_collection_names_def)
  show ?thesis
    unfolding test_database_def Let_def r0_def [symmetric] p
    using b1 none raises failing working
    by (cases ex) (auto simp: )
qed

theorem test_database_always_answers_witness:
  "(\<exists>r. test_database None Map.empty = Inr r \<and>
        database r = warning_sign @ ''  Available but not initialized'' \<and> collections r = []) \<and>
   (\<exists>r. test_database (Some raising_db) Map.empty = Inr r \<and>
        database r = cross_mark @ '' Error: handle closed'') \<and>
   (\<exists>r. test_database (Some failing_db) Map.empty = Inr r \<and>
        database r = warning_sign @ ''  Connected but Error: connection refused'') \<and>
   (\<exists>r. test_database (Some crowded_db) Map.empty = Inr r \<and>
        database r = check_mark @ '' Connected & Working'' \<and>
        collections r = [''a'', ''b'', ''c'', ''d'', ''e'', ''f'', ''g'', ''h'', ''i'', ''j''])"
  using test_database_always_answers [of None Map.empty]
    test_database_always_answers [of "Some raising_db" Map.empty]
    test_database_always_answers [of "Some failing_db" Map.empty]
    test_database_always_answers [of "Some crowded_db" Map.empty]
  by (auto simp: raising_db_def failing_db_def crowded_db_def test_database_def Let_def probe_def)

section \<open>Document extraction\<close>

lemma ocr_extract_ok:
  assumes "fault d = None"
  shows "ocr_extract file now (Some d) =
     ((case filename file of
         None \<Rightarrow> Inl AttributeError
       | Some fname \<Rightarrow>
           Inr \<lparr>id_type = Some (if endswith (lower fname) [''.jpg'', ''.png'', ''.jpeg'']
                                  then ''aadhaar'' else ''pan''),
                 id_number = Some ''XXXX-XXXX-1234'',
                 full_name = Some ''Sample Guest'',
                 dob = Some ''1990-01-01'',
                 raw_text = Some ''Mocked OCR content''\<rparr>),
      snd (create_document ''iddocument''
             [''file_name'' \<mapsto> opt_str (filename file), ''extracted'' \<mapsto> PDict [],
              ''raw_text'' \<mapsto> PNone, ''filename'' \<mapsto> opt_str (filename file),
              ''content_type'' \<mapsto> opt_str (content_type file), ''received_at'' \<mapsto> PStr now]
             (Some d)))"
  using assms by (simp add: ocr_extract_def create_document_ok split: option.split)

lemma ocr_extract_unavailable: "ocr_extract file now None = (Inl StoreUnavailable, None)"
  by (simp add: ocr_extract_def create_document_def)

lemma ocr_extract_fault:
  "fault d = Some e \<Longrightarrow> ocr_extract file now (Some d) = (Inl (StoreWriteError e), Some d)"
  by (simp add: ocr_extract_def create_document_def)

text \<open>
  C8. On a store that accepts the write, every extraction request appends one audit record
  to the \<^verbatim>\<open>iddocument\<close> collection, with the file's name and the time of receipt, before
  the extraction step runs: the record is there when the step answers and also when it fails
  (a file without a name).
\<close>

theorem audit_record_persisted_whatever_the_outcome:
  assumes "fault d = None"
  shows "\<exists>rec. stored (snd (ocr_extract file now (Some d))) ''iddocument'' =
                 stored (Some d) ''iddocument'' @ [rec] \<and>
               rec ''file_name'' = Some (opt_str (filename file)) \<and>
               rec ''received_at'' = Some (PStr now) \<and>
               (filename file = None \<longrightarrow> fst (ocr_extract file now (Some d)) = Inl AttributeError) \<and>
               (filename file \<noteq> None \<longrightarrow> (\<exists>res. fst (ocr_extract file now (Some d)) = Inr res))"
  using assms
  by (auto simp add: ocr_extract_ok stored_create_document)

theorem audit_record_persisted_whatever_the_outcome_witness:
  "fst (ocr_extract nameless_file ''2024-01-01T14:00:00'' (Some demo_db)) = Inl AttributeError \<and>
   stored (snd (ocr_extract nameless_file ''2024-01-01T14:00:00'' (Some demo_db))) ''iddocument'' =
     [[''file_name'' \<mapsto> PNone, ''extracted'' \<mapsto> PDict [], ''raw_text'' \<mapsto> PNone,
       ''filename'' \<mapsto> PNone, ''content_type'' \<mapsto> PStr ''image/png'',
       ''received_at'' \<mapsto> PStr ''2024-01-01T14:00:00'', ''_id'' \<mapsto> POid 0]] \<and>
   (\<exists>res. fst (ocr_extract pdf_file ''2024-01-01T14:00:00'' (Some demo_db)) = Inr res) \<and>
   length (stored (snd (ocr_extract pdf_file ''2024-01-01T14:00:00'' (Some demo_db)))
             ''iddocument'') = 1"
  using audit_record_persisted_whatever_the_outcome
    [of demo_db nameless_file "''2024-01-01T14:00:00''"]
    audit_record_persisted_whatever_the_outcome
    [of demo_db pdf_file "''2024-01-01T14:00:00''"]
  by (simp add: ocr_extract_ok stored_create_document demo_db_facts nameless_file_def
      pdf_file_def opt_str_def)

text \<open>
  C9, as the spec states it, fails: a picture is answered with the document type
  \<^verbatim>\<open>aadhaar\<close>, a PDF with \<^verbatim>\<open>pan\<close>.
\<close>

theorem ocr_id_type_follows_extension:
  "map_sum id ocr_result.id_type (fst (ocr_extract jpg_file ''2024-01-01T14:00:00'' (Some demo_db))) =
     Inr (Some ''aadhaar'') \<and>
   map_sum id ocr_result.id_type (fst (ocr_extract pdf_file ''2024-01-01T14:00:00'' (Some demo_db))) =
     Inr (Some ''pan'')"
  by (simp add: ocr_extract_ok demo_db_facts jpg_file_def pdf_file_def endswith_def lower_def
      lower_char_def)

text \<open>
  C9, as the code has it. For every two uploaded files that have a name, on stores that
  accept the write, the extracted \<^verbatim>\<open>id_number\<close>, \<^verbatim>\<open>full_name\<close>, \<^verbatim>\<open>dob\<close> and \<^verbatim>\<open>raw_text\<close>
  are the same fixed values; \<^verbatim>\<open>id_type\<close> is \<^verbatim>\<open>aadhaar\<close> when the lowercased file name ends in
  \<^verbatim>\<open>.jpg\<close>, \<^verbatim>\<open>.png\<close> or \<^verbatim>\<open>.jpeg\<close> and \<^verbatim>\<open>pan\<close> otherwise, and depends on nothing else of the
  file: two files that agree on this get the same answer.
\<close>

theorem ocr_stub_fixed_but_for_id_type:
  assumes "filename f1 = Some n1" and "filename f2 = Some n2"
    and "fault d1 = None" and "fault d2 = None"
  shows "\<exists>r1 r2. fst (ocr_extract f1 t1 (Some d1)) = Inr r1 \<and>
                 fst (ocr_extract f2 t2 (Some d2)) = Inr r2 \<and>
                 ocr_result.id_number r1 = Some ''XXXX-XXXX-1234'' \<and>
                 ocr_result.id_number r2 = ocr_result.id_number r1 \<and>
                 ocr_result.full_name r1 = Some ''Sample Guest'' \<and>
                 ocr_result.full_name r2 = ocr_result.full_name r1 \<and>
                 ocr_result.dob r1 = Some ''1990-01-01'' \<and>
                 ocr_result.dob r2 = ocr_result.dob r1 \<and>
                 ocr_result.raw_text r1 = Some ''Mocked OCR content'' \<and>
                 ocr_result.raw_text r2 = ocr_result.raw_text r1 \<and>
                 ocr_result.id_type r1 =
                   Some (if endswith (lower n1) image_exts then ''aadhaar'' else ''pan'') \<and>
                 ocr_result.id_type r2 =
                   Some (if endswith (lower n2) image_exts then ''aadhaar'' else ''pan'') \<and>
                 (endswith (lower n1) image_exts = endswith (lower n2) image_exts \<longrightarrow> r1 = r2)"
  using assms by (simp add: ocr_extract_ok image_exts_def)

theorem ocr_stub_fixed_but_for_id_type_witness:
  "fst (ocr_extract jpg_file ''2024-01-01T14:00:00'' (Some demo_db)) =
     Inr \<lparr>id_type = Some ''aadhaar'', id_number = Some ''XXXX-XXXX-1234'',
           full_name = Some ''Sample Guest'', dob = Some ''1990-01-01'',
           raw_text = Some ''Mocked OCR content''\<rparr> \<and>
   fst (ocr_extract pdf_file ''2024-02-02T09:30:00'' (Some guests_db)) =
     Inr \<lparr>id_type = Some ''pan'', id_number = Some ''XXXX-XXXX-1234'',
           full_name = Some ''Sample Guest'', dob = Some ''1990-01-01'',
           raw_text = Some ''Mocked OCR content''\<rparr> \<and>
   fst (ocr_extract png_file ''2024-02-02T09:30:00'' (Some guests_db)) =
     fst (ocr_extract jpg_file ''2024-01-01T14:00:00'' (Some demo_db))"
  using ocr_stub_fixed_but_for_id_type [of jpg_file "''card.JPG''" pdf_file "''card.pdf''"
      demo_db guests_db "''2024-01-01T14:00:00''" "''2024-02-02T09:30:00''"]
    ocr_stub_fixed_but_for_id_type [of jpg_file "''card.JPG''" png_file "''scan.png''"
      demo_db guests_db "''2024-01-01T14:00:00''" "''2024-02-02T09:30:00''"]
  by (auto simp add: demo_db_facts guests_db_fault jpg_file_def pdf_file_def png_file_def
      endswith_def lower_def lower_char_def image_exts_def)

text \<open>
  C10. Every record that \<^verbatim>\<open>ocr_extract\<close> adds to the \<^verbatim>\<open>iddocument\<close> collection has an
  empty \<^verbatim>\<open>extracted\<close> mapping and a null \<^verbatim>\<open>raw_text\<close>; beside them it holds the identifier
  the store assigned and the file's metadata (its name, twice, its content type and the time
  of receipt), and no other field: none of the mocked extraction fields is stored.
\<close>

theorem audit_record_holds_metadata_only:
  "\<exists>new. stored (snd (ocr_extract file now db)) ''iddocument'' = stored db ''iddocument'' @ new \<and>
         (\<forall>rec \<in> set new.
            rec ''extracted'' = Some (PDict []) \<and>
            rec ''raw_text'' = Some PNone \<and>
            rec ''file_name'' = Some (opt_str (filename file)) \<and>
            rec ''filename'' = Some (opt_str (filename file)) \<and>
            rec ''content_type'' = Some (opt_str (content_type file)) \<and>
            rec ''received_at'' = Some (PStr now) \<and>
            (\<exists>n. rec ''_id'' = Some (POid n)) \<and>
            dom rec = {''_id'', ''file_name'', ''extracted'', ''raw_text'', ''filename'',
                       ''content_type'', ''received_at''})"
proof (cases db)
  case None
  then show ?thesis by (simp add: ocr_extract_unavailable)
next
  case (Some d)
  show ?thesis
  proof (cases "fault d")
    case None
    with Some show ?thesis
      by (simp add: ocr_extract_ok stored_create_document) auto
  next
    case (Some e)
    with \<open>db = Some d\<close> show ?thesis by (simp add: ocr_extract_fault)
  qed
qed

theorem audit_record_holds_metadata_only_witness:
  "stored (snd (ocr_extract jpg_file ''2024-01-01T14:00:00'' (Some demo_db))) ''iddocument'' =
     [[''file_name'' \<mapsto> PStr ''card.JPG'', ''extracted'' \<mapsto> PDict [], ''raw_text'' \<mapsto> PNone,
       ''filename'' \<mapsto> PStr ''card.JPG'', ''content_type'' \<mapsto> PStr ''image/jpeg'',
       ''received_at'' \<mapsto> PStr ''2024-01-01T14:00:00'', ''_id'' \<mapsto> POid 0]]"
  using audit_record_holds_metadata_only [of jpg_file "''2024-01-01T14:00:00''" "Some demo_db"]
  by (simp add: ocr_extract_ok stored_create_document demo_db_facts jpg_file_def opt_str_def)

section \<open>Identifiers\<close>

lemma stringify_id_apply:
  "stringify_id render d k =
     (if k = ''_id'' then map_option (\<lambda>v. PStr (py_str render v)) (d k) else d k)"
  by (simp add: stringify_id_def split: option.split)

lemma get_documents_subset:
  "get_documents c f limit db = Inr docs \<Longrightarrow> set docs \<subseteq> set (stored db c)"
  by (auto simp: get_documents_def stored_def split: option.splits dest: in_set_takeD)

lemma list_guests_shape:
  assumes "list_guests render q limit db = Inr rs" and "r \<in> set rs"
  shows "\<exists>d \<in> set (stored db ''guest'').
           \<forall>k. r k = (if k = ''_id'' then map_option (\<lambda>v. PStr (py_str render v)) (d k) else d k)"
proof -
  from assms(1) obtain docs where
    g: "get_documents ''guest''
          (case q of None \<Rightarrow> All
           | Some s \<Rightarrow> if s \<noteq> [] then Or [Eq ''phone'' (PStr s), Eq ''id_number'' (PStr s)]
                       else All) limit db = Inr docs"
    and rs: "rs = map (stringify_id render) docs"
    by (auto simp: list_guests_def Let_def split: sum.splits)
  from rs assms(2) obtain d where "d \<in> set docs" and "r = stringify_id render d" by auto
  with get_documents_subset [OF g] show ?thesis
    by (auto simp: stringify_id_apply)
qed

lemma list_bookings_shape:
  assumes "list_bookings render limit db = Inr rs" and "r \<in> set rs"
  shows "\<exists>d \<in> set (stored db ''booking'').
           \<forall>k. r k = (if k = ''_id'' then map_option (\<lambda>v. PStr (py_str render v)) (d k) else d k)"
proof -
  from assms(1) obtain docs where g: "get_documents ''booking'' All limit db = Inr docs"
    and rs: "rs = map (stringify_id render) docs"
    by (auto simp: list_bookings_def split: sum.splits)
  from rs assms(2) obtain d where "d \<in> set docs" and "r = stringify_id render d" by auto
  with get_documents_subset [OF g] show ?thesis
    by (auto simp: stringify_id_apply)
qed

lemma stringify_stored:
  "m ''_id'' = None \<Longrightarrow>
   stringify_id render (m(''_id'' \<mapsto> POid n)) = [''_id'' \<mapsto> PStr (oid_str n)] ++ m"
  by (rule ext) (auto simp: stringify_id_def py_str_def map_add_def split: option.split)

lemma with_id_apply: "m ''_id'' = None \<Longrightarrow> ([''_id'' \<mapsto> x] ++ m) ''_id'' = Some x"
  by (simp add: map_add_def)

lemma guest_model_dump_no_id: "guest_model_dump g ''_id'' = None"
  by (simp add: guest_model_dump_def)

lemma booking_model_dump_no_id: "booking_model_dump b ''_id'' = None"
  by (simp add: booking_model_dump_def)

lemma create_guest_then_list:
  assumes "fault d = None" and "int (length (coll_docs d ''guest'')) < limit"
  shows "\<exists>r db' rs. create_guest g (Some d) = (Inr r, db') \<and>
           r ''_id'' = Some (PStr (oid_str (next_oid d))) \<and>
           list_guests render None limit db' = Inr rs \<and> last rs = r \<and> r \<in> set rs"
  using assms
  by (simp add: create_guest_def create_document_ok list_guests_def get_documents_ok
      coll_docs_update stringify_stored guest_model_dump_no_id with_id_apply)

lemma create_booking_then_list:
  assumes "fault d = None" and "int (length (coll_docs d ''booking'')) < limit"
  shows "\<exists>r db' rs. create_booking b (Some d) = (Inr r, db') \<and>
           r ''_id'' = Some (PStr (oid_str (next_oid d))) \<and>
           list_bookings render limit db' = Inr rs \<and> last rs = r \<and> r \<in> set rs"
  using assms
  by (simp add: create_booking_def create_document_ok list_bookings_def get_documents_ok
      coll_docs_update stringify_stored booking_model_dump_no_id with_id_apply)

text \<open>
  C5. Every record that \<^verbatim>\<open>list_guests\<close> or \<^verbatim>\<open>list_bookings\<close> returns is a stored record of
  its collection whose \<^verbatim>\<open>_id\<close> has been replaced by its string, every other field unchanged;
  the string of a native identifier is its canonical form, the form that the create
  operation returns: a guest or booking that has just been created is listed (when the limit
  reaches it) as the very record that the create operation answered with.
\<close>

theorem listed_identifiers_are_strings:
  "(list_guests render q limit db = Inr rs \<longrightarrow>
      (\<forall>r \<in> set rs. \<exists>d \<in> set (stored db ''guest'').
         \<forall>k. r k = (if k = ''_id'' then map_option (\<lambda>v. PStr (py_str render v)) (d k) else d k))) \<and>
   (list_bookings render limit db = Inr rs \<longrightarrow>
      (\<forall>r \<in> set rs. \<exists>d \<in> set (stored db ''booking'').
         \<forall>k. r k = (if k = ''_id'' then map_option (\<lambda>v. PStr (py_str render v)) (d k) else d k))) \<and>
   py_str render (POid n) = oid_str n \<and>
   (fault d = None \<and> int (length (coll_docs d ''guest'')) < limit \<longrightarrow>
      (\<exists>r db' rs'. create_guest g (Some d) = (Inr r, db') \<and>
         r ''_id'' = Some (PStr (oid_str (next_oid d))) \<and>
         list_guests render None limit db' = Inr rs' \<and> last rs' = r \<and> r \<in> set rs')) \<and>
   (fault d = None \<and> int (length (coll_docs d ''booking'')) < limit \<longrightarrow>
      (\<exists>r db' rs'. create_booking b (Some d) = (Inr r, db') \<and>
         r ''_id'' = Some (PStr (oid_str (next_oid d))) \<and>
         list_bookings render limit db' = Inr rs' \<and> last rs' = r \<and> r \<in> set rs'))"
  using list_guests_shape [of render q limit db rs] list_bookings_shape [of render limit db rs]
    create_guest_then_list [of d limit g render] create_booking_then_list [of d limit b render]
  by (simp add: py_str_def)

lemma validate_asha: "validate_guest demo_codecs asha = Inr asha_guest"
  by (simp add: validate_guest_def asha_def asha_guest_def demo_codecs_def Let_def field_errors_def
      required_def optional_def defaulted_def str_type_def)

theorem listed_identifiers_are_strings_witness:
  "list_guests (\<lambda>v. []) None 2 (Some guests_db) =
     Inr [[''full_name'' \<mapsto> PStr ''Asha Rao'', ''phone'' \<mapsto> PStr ''555'', ''_id'' \<mapsto> PStr ''0''],
          [''full_name'' \<mapsto> PStr ''Ravi Iyer'', ''phone'' \<mapsto> PStr ''777'', ''_id'' \<mapsto> PStr ''1'']] \<and>
   list_bookings (\<lambda>v. []) 50 (Some bookings_db) =
     Inr [[''guest_id'' \<mapsto> PStr ''0'', ''room_number'' \<mapsto> PStr ''204'',
           ''status'' \<mapsto> PStr ''booked'', ''_id'' \<mapsto> PStr ''0'']] \<and>
   (\<exists>r db' rs'. create_guest asha_guest (Some demo_db) = (Inr r, db') \<and>
      r ''_id'' = Some (PStr ''0'') \<and>
      list_guests (\<lambda>v. []) None 2 db' = Inr rs' \<and> last rs' = r \<and> r \<in> set rs') \<and>
   (\<exists>r db' rs'. create_booking stay (Some demo_db) = (Inr r, db') \<and>
      r ''_id'' = Some (PStr ''0'') \<and>
      list_bookings (\<lambda>v. []) 2 db' = Inr rs' \<and> last rs' = r \<and> r \<in> set rs')"
proof (intro conjI)
  note t = listed_identifiers_are_strings [where render = "\<lambda>v. []" and limit = 2 and d = demo_db
      and g = asha_guest and b = stay]
  show "list_guests (\<lambda>v. []) None 2 (Some guests_db) =
     Inr [[''full_name'' \<mapsto> PStr ''Asha Rao'', ''phone'' \<mapsto> PStr ''555'', ''_id'' \<mapsto> PStr ''0''],
          [''full_name'' \<mapsto> PStr ''Ravi Iyer'', ''phone'' \<mapsto> PStr ''777'', ''_id'' \<mapsto> PStr ''1'']]"
    by (simp add: list_guests_def get_documents_def guests_db_def coll_docs_def
        stringify_id_def py_str_def oid_str.simps hex_digit_def)
  show "list_bookings (\<lambda>v. []) 50 (Some bookings_db) =
     Inr [[''guest_id'' \<mapsto> PStr ''0'', ''room_number'' \<mapsto> PStr ''204'',
           ''status'' \<mapsto> PStr ''booked'', ''_id'' \<mapsto> PStr ''0'']]"
    by (simp add: list_bookings_def get_documents_def bookings_db_def coll_docs_def
        stringify_id_def py_str_def oid_str.simps hex_digit_def)
  have h: "fault demo_db = None \<and> int (length (coll_docs demo_db c)) < 2" for c
    by (simp add: demo_db_facts)
  from t [THEN conjunct2, THEN conjunct2, THEN conjunct2, THEN conjunct1] h
  show "\<exists>r db' rs'. create_guest asha_guest (Some demo_db) = (Inr r, db') \<and>
      r ''_id'' = Some (PStr ''0'') \<and>
      list_guests (\<lambda>v. []) None 2 db' = Inr rs' \<and> last rs' = r \<and> r \<in> set rs'"
    by (simp add: demo_db_facts oid_str.simps hex_digit_def)
  from t [THEN conjunct2, THEN conjunct2, THEN conjunct2, THEN conjunct2] h
  show "\<exists>r db' rs'. create_booking stay (Some demo_db) = (Inr r, db') \<and>
      r ''_id'' = Some (PStr ''0'') \<and>
      list_bookings (\<lambda>v. []) 2 db' = Inr rs' \<and> last rs' = r \<and> r \<in> set rs'"
    by (simp add: demo_db_facts oid_str.simps hex_digit_def)
qed

lemma id_below_mono: "id_below k doc \<Longrightarrow> k \<le> k' \<Longrightarrow> id_below k' doc"
  by (auto simp: id_below_def split: option.splits pyval.splits)

lemma id_below_new: "id_below (Suc n) (doc(''_id'' \<mapsto> POid n))"
  by (simp add: id_below_def)

lemma id_below_differs: "id_below n doc \<Longrightarrow> doc ''_id'' \<noteq> Some (POid (n + k))"
  by (auto simp: id_below_def)

lemma set_update_cases:
  "(k', v') \<in> set (AList.update k v al) \<Longrightarrow> (k', v') = (k, v) \<or> (k', v') \<in> set al"
  by (induction al) (auto split: if_splits)

lemma coll_docs_in_colls:
  assumes "doc \<in> set (coll_docs d c)"
  shows "\<exists>docs. (c, docs) \<in> set (colls d) \<and> doc \<in> set docs"
proof (cases "map_of (colls d) c")
  case None
  with assms show ?thesis by (simp add: coll_docs_def)
next
  case (Some ds)
  then have "(c, ds) \<in> set (colls d)" by (rule map_of_SomeD)
  moreover from Some assms have "doc \<in> set ds" by (simp add: coll_docs_def)
  ultimately show ?thesis by blast
qed

lemma ids_below_stored: "ids_below d \<Longrightarrow> doc \<in> set (coll_docs d c) \<Longrightarrow> id_below (next_oid d) doc"
  by (auto simp: ids_below_def dest!: coll_docs_in_colls)

lemma ids_below_insert:
  assumes "ids_below d"
  shows "ids_below (d\<lparr>colls := AList.update c (coll_docs d c @ [doc(''_id'' \<mapsto> POid (next_oid d))])
                               (colls d),
                     next_oid := Suc (next_oid d)\<rparr>)"
  unfolding ids_below_def
proof (clarsimp)
  fix c' docs x
  assume m: "(c', docs) \<in> set (AList.update c
                (coll_docs d c @ [doc(''_id'' \<mapsto> POid (next_oid d))]) (colls d))"
    and x: "x \<in> set docs"
  from set_update_cases [OF m] show "id_below (Suc (next_oid d)) x"
  proof
    assume "(c', docs) = (c, coll_docs d c @ [doc(''_id'' \<mapsto> POid (next_oid d))])"
    with x have "x \<in> set (coll_docs d c) \<or> x = doc(''_id'' \<mapsto> POid (next_oid d))" by auto
    then show ?thesis
      using ids_below_stored [OF assms] id_below_new id_below_mono [of "next_oid d" x "Suc (next_oid d)"]
      by auto
  next
    assume "(c', docs) \<in> set (colls d)"
    with assms x have "id_below (next_oid d) x" by (auto simp: ids_below_def)
    then show ?thesis by (rule id_below_mono) simp
  qed
qed

lemma post_guest_ok:
  assumes "validate_guest lib raw = Inr g" and "fault d = None"
  shows "post_guest lib raw (Some d) =
           (Inr ([''_id'' \<mapsto> PStr (oid_str (next_oid d))] ++ guest_model_dump g),
            Some (d\<lparr>colls := AList.update ''guest''
                      (coll_docs d ''guest'' @ [(guest_model_dump g)(''_id'' \<mapsto> POid (next_oid d))])
                      (colls d),
                    next_oid := Suc (next_oid d)\<rparr>))"
  using assms by (simp add: post_guest_def create_guest_def create_document_ok)

text \<open>
  C6. On a store that accepts the writes, posting the same valid Guest input twice answers
  with two records that differ in their identifiers, and appends two distinct records to the
  \<^verbatim>\<open>guest\<close> collection, the same but for their identifiers: nothing is deduplicated. When the
  identifiers in the store are below the next one to hand out, the two new identifiers are
  used by no record already stored, and the same holds of the store afterwards.
\<close>

theorem create_guest_twice_two_records:
  assumes "validate_guest lib raw = Inr g" and "fault d = None"
  shows "\<exists>r1 db1 r2 db2 s1 s2.
           post_guest lib raw (Some d) = (Inr r1, db1) \<and>
           post_guest lib raw db1 = (Inr r2, db2) \<and>
           r1 = [''_id'' \<mapsto> PStr (oid_str (next_oid d))] ++ guest_model_dump g \<and>
           r2 = [''_id'' \<mapsto> PStr (oid_str (Suc (next_oid d)))] ++ guest_model_dump g \<and>
           r1 ''_id'' = Some (PStr (oid_str (next_oid d))) \<and>
           r2 ''_id'' = Some (PStr (oid_str (Suc (next_oid d)))) \<and>
           r1 ''_id'' \<noteq> r2 ''_id'' \<and>
           stored db2 ''guest'' = stored (Some d) ''guest'' @ [s1, s2] \<and>
           s1 = (guest_model_dump g)(''_id'' \<mapsto> POid (next_oid d)) \<and>
           s2 = (guest_model_dump g)(''_id'' \<mapsto> POid (Suc (next_oid d))) \<and>
           s1 \<noteq> s2 \<and>
           (ids_below d \<longrightarrow>
              (\<forall>doc \<in> set (stored (Some d) c). doc ''_id'' \<noteq> s1 ''_id'' \<and> doc ''_id'' \<noteq> s2 ''_id'') \<and>
              (\<exists>d2. db2 = Some d2 \<and> ids_below d2))"
proof -
  let ?n = "next_oid d"
  let ?s1 = "(guest_model_dump g)(''_id'' \<mapsto> POid ?n)"
  let ?s2 = "(guest_model_dump g)(''_id'' \<mapsto> POid (Suc ?n))"
  let ?d1 = "d\<lparr>colls := AList.update ''guest'' (coll_docs d ''guest'' @ [?s1]) (colls d),
               next_oid := Suc ?n\<rparr>"
  let ?d2 = "?d1\<lparr>colls := AList.update ''guest'' (coll_docs ?d1 ''guest'' @ [?s2]) (colls ?d1),
                 next_oid := Suc (Suc ?n)\<rparr>"
  let ?r1 = "[''_id'' \<mapsto> PStr (oid_str ?n)] ++ guest_model_dump g"
  let ?r2 = "[''_id'' \<mapsto> PStr (oid_str (Suc ?n))] ++ guest_model_dump g"
  have p1: "post_guest lib raw (Some d) = (Inr ?r1, Some ?d1)"
    using assms by (rule post_guest_ok)
  have "fault ?d1 = None" using assms(2) by simp
  from post_guest_ok [OF assms(1) this]
  have p2: "post_guest lib raw (Some ?d1) = (Inr ?r2, Some ?d2)" by simp
  have i1: "?r1 ''_id'' = Some (PStr (oid_str ?n))"
    and i2: "?r2 ''_id'' = Some (PStr (oid_str (Suc ?n)))"
    by (simp_all add: with_id_apply guest_model_dump_no_id)
  have ne: "oid_str ?n \<noteq> oid_str (Suc ?n)"
    using oid_str_inj [of ?n "Suc ?n"] by auto
  have st: "stored (Some ?d2) ''guest'' = stored (Some d) ''guest'' @ [?s1, ?s2]"
    by (simp add: stored_def coll_docs_update)
  have sne: "?s1 \<noteq> ?s2"
  proof
    assume "?s1 = ?s2"
    then have "?s1 ''_id'' = ?s2 ''_id''" by (rule arg_cong)
    then show False by simp
  qed
  have fresh: "ids_below d \<Longrightarrow> doc \<in> set (stored (Some d) c) \<Longrightarrow>
      doc ''_id'' \<noteq> ?s1 ''_id'' \<and> doc ''_id'' \<noteq> ?s2 ''_id''" for doc
    using ids_below_stored [of d doc c] id_below_differs [of ?n doc 0] id_below_differs [of ?n doc 1]
    by (simp add: stored_def)
  have inv: "ids_below d \<Longrightarrow> ids_below ?d2"
    using ids_below_insert [of d "''guest''" "guest_model_dump g"]
      ids_below_insert [of ?d1 "''guest''" "guest_model_dump g"]
    by simp
  show ?thesis
    using p1 p2 i1 i2 ne st sne fresh inv
    by (intro exI [of _ ?r1] exI [of _ "Some ?d1"] exI [of _ ?r2] exI [of _ "Some ?d2"]
        exI [of _ ?s1] exI [of _ ?s2]) simp
qed

theorem create_guest_twice_two_records_witness:
  "\<exists>db1 db2 d2.
     post_guest demo_codecs asha (Some demo_db) =
       (Inr [''_id'' \<mapsto> PStr ''0'', ''full_name'' \<mapsto> PStr ''Asha Rao'',
             ''phone'' \<mapsto> PStr ''+919999999999'', ''email'' \<mapsto> PNone, ''address'' \<mapsto> PNone,
             ''id_type'' \<mapsto> PNone, ''id_number'' \<mapsto> PNone, ''dob'' \<mapsto> PNone,
             ''meta'' \<mapsto> PDict []], db1) \<and>
     post_guest demo_codecs asha db1 =
       (Inr [''_id'' \<mapsto> PStr ''1'', ''full_name'' \<mapsto> PStr ''Asha Rao'',
             ''phone'' \<mapsto> PStr ''+919999999999'', ''email'' \<mapsto> PNone, ''address'' \<mapsto> PNone,
             ''id_type'' \<mapsto> PNone, ''id_number'' \<mapsto> PNone, ''dob'' \<mapsto> PNone,
             ''meta'' \<mapsto> PDict []], db2) \<and>
     length (stored db2 ''guest'') = 2 \<and> db2 = Some d2 \<and> ids_below d2"
  using create_guest_twice_two_records [of demo_codecs asha asha_guest demo_db]
  by (auto simp add: validate_asha demo_db_facts guest_model_dump_def asha_guest_def opt_str_def
      oid_str.simps hex_digit_def ids_below_demo_db)

end
